theory Spec2Isabelle
  imports Main
begin

section \<open>Grid model (sudokus.ts)\<close>

text \<open>
  A \<open>SimpleSudoku\<close> is the TypeScript \<open>number[][]\<close>: a list of rows, read as
  \<open>sudoku ! i ! j\<close> (row \<open>i\<close>, column \<open>j\<close>). The digit \<open>0\<close> is the empty cell.
  The functions of the solver are written for grids of nine rows of nine cells, and
  every statement below is about such grids (\<open>is_grid\<close>); reads outside a grid of
  that shape are not part of the model.
\<close>

type_synonym SimpleSudoku = "nat list list"

datatype error = TypeError

definition is_grid :: "SimpleSudoku \<Rightarrow> bool" where
  "is_grid sudoku \<longleftrightarrow> length sudoku = 9 \<and> list_all (\<lambda>row. length row = 9) sudoku"

text \<open>The two nested \<open>for\<close> loops over \<open>i\<close> and \<open>j\<close>, in row-major order.\<close>

definition coordinates :: "(nat \<times> nat) list" where
  "coordinates = concat (map (\<lambda>i. map (\<lambda>j. (i, j)) [0..<9]) [0..<9])"

definition isSudokuFilled :: "SimpleSudoku \<Rightarrow> bool" where
  "isSudokuFilled sudoku \<longleftrightarrow>
     list_all (\<lambda>i. list_all (\<lambda>j. sudoku ! i ! j \<noteq> 0) [0..<9]) [0..<9]"

text \<open>
  A JavaScript \<open>Set\<close> built from an array, of which the code only reads the size:
  a duplicate-free list. \<open>set.delete(0)\<close> removes the element \<open>0\<close>.
\<close>

definition new_Set :: "nat list \<Rightarrow> nat list" where
  "new_Set xs = remdups xs"

definition Set_delete :: "nat \<Rightarrow> nat list \<Rightarrow> nat list" where
  "Set_delete v s = removeAll v s"

text \<open>The test \<open>set.size !== xs.filter((n) => n !== 0).length\<close>, negated.\<close>

definition sizes_agree :: "nat list \<Rightarrow> bool" where
  "sizes_agree xs \<longleftrightarrow>
     length (Set_delete 0 (new_Set xs)) = length (filter (\<lambda>n. n \<noteq> 0) xs)"

definition column_of :: "SimpleSudoku \<Rightarrow> nat \<Rightarrow> nat list" where
  "column_of sudoku i = map (\<lambda>row. row ! i) sudoku"

definition square_of :: "SimpleSudoku \<Rightarrow> nat \<Rightarrow> nat \<Rightarrow> nat list" where
  "square_of sudoku i j =
     concat (map (\<lambda>k. map (\<lambda>l. sudoku ! (i * 3 + k) ! (j * 3 + l)) [0..<3]) [0..<3])"

definition isSudokuValid :: "SimpleSudoku \<Rightarrow> bool" where
  "isSudokuValid sudoku \<longleftrightarrow>
     list_all (\<lambda>i. sizes_agree (sudoku ! i)) [0..<9] \<and>
     list_all (\<lambda>i. sizes_agree (column_of sudoku i)) [0..<9] \<and>
     list_all (\<lambda>i. list_all (\<lambda>j. sizes_agree (square_of sudoku i j)) [0..<3]) [0..<3]"

text \<open>
  \<open>const newSudoku = sudoku.map((row) => row.slice()); newSudoku[i][j] = k\<close>:
  a fresh grid that differs from \<open>sudoku\<close> in cell \<open>(i, j)\<close> only.
\<close>

definition set_cell :: "SimpleSudoku \<Rightarrow> nat \<Rightarrow> nat \<Rightarrow> nat \<Rightarrow> SimpleSudoku" where
  "set_cell sudoku i j k = sudoku[i := (sudoku ! i)[j := k]]"

text \<open>The first empty cell in row-major order, where the two loops stop.\<close>

definition first_empty :: "SimpleSudoku \<Rightarrow> (nat \<times> nat) option" where
  "first_empty sudoku = find (\<lambda>(i, j). sudoku ! i ! j = 0) coordinates"

definition bruteForceStrategy :: "SimpleSudoku \<Rightarrow> SimpleSudoku list" where
  "bruteForceStrategy sudoku =
     (case first_empty sudoku of
        Some (i, j) \<Rightarrow> map (\<lambda>k. set_cell sudoku i j k) [1..<10]
      | None \<Rightarrow> [])"

definition withValidCheckStrategy :: "SimpleSudoku \<Rightarrow> SimpleSudoku list" where
  "withValidCheckStrategy sudoku =
     (case first_empty sudoku of
        Some (i, j) \<Rightarrow> filter isSudokuValid (map (\<lambda>k. set_cell sudoku i j k) [1..<10])
      | None \<Rightarrow> [])"

definition getEmptyCoordinates :: "SimpleSudoku \<Rightarrow> (nat \<times> nat) list" where
  "getEmptyCoordinates sudoku = filter (\<lambda>(i, j). sudoku ! i ! j = 0) coordinates"

text \<open>
  One entry \<open>[i, j, 9 - set.size]\<close> of \<open>possibilities\<close>. The count is a JavaScript
  number and may be negative on a grid with more than nine distinct values, so it
  is an \<open>int\<close>.
\<close>

definition possibility :: "SimpleSudoku \<Rightarrow> nat \<times> nat \<Rightarrow> nat \<times> nat \<times> int" where
  "possibility sudoku = (\<lambda>(i, j).
     (let row = sudoku ! i;
          column = column_of sudoku j;
          square = concat (map (\<lambda>k. map (\<lambda>l.
                     sudoku ! (i - i mod 3 + k) ! (j - j mod 3 + l)) [0..<3]) [0..<3]);
          s = Set_delete 0 (new_Set (row @ column @ square))
      in (i, j, 9 - int (length s))))"

text \<open>
  \<open>possibilities.sort((a, b) => a[2] - b[2])\<close>: \<open>Array.prototype.sort\<close> is
  stable, and so is insertion sort by key. Destructuring \<open>sortedPossibilities[0]\<close>
  throws a \<open>TypeError\<close> when the array is empty (the element is \<open>undefined\<close>).
\<close>

definition minimumRemainingValueStrategy :: "SimpleSudoku \<Rightarrow> error + SimpleSudoku list" where
  "minimumRemainingValueStrategy sudoku =
     (let emptyCoordinates = getEmptyCoordinates sudoku;
          possibilities = map (possibility sudoku) emptyCoordinates;
          sortedPossibilities = sort_key (\<lambda>(i, j, n). n) possibilities
      in case sortedPossibilities of
           [] \<Rightarrow> Inl TypeError
         | (i, j, n) # rest \<Rightarrow>
             Inr (filter isSudokuValid (map (\<lambda>k. set_cell sudoku i j k) [1..<10])))"


section \<open>Domain model and the arc-consistency reducer (ac3.ts)\<close>

text \<open>
  A \<open>DomainSudoku\<close> is the TypeScript \<open>number[][][]\<close>: each cell holds the list
  of its candidate digits.
\<close>

type_synonym DomainSudoku = "nat list list list"

text \<open>
  Modelled from the spec: \<open>squareIndex\<close> and \<open>SQUARE_TABLE\<close> are imported from
  \<open>./common\<close>, which is not among the sources. The block index of a coordinate is
  \<open>(row / 3) * 3 + (column / 3)\<close> with integer division, and entry \<open>s\<close> of the
  table lists the nine coordinates \<open>[x, y]\<close> (column first, as \<open>ac3\<close> destructures
  them) of block \<open>s\<close>.
\<close>

definition squareIndex :: "nat \<Rightarrow> nat \<Rightarrow> nat" where
  "squareIndex x y = (y div 3) * 3 + x div 3"

definition SQUARE_TABLE :: "(nat \<times> nat) list list" where
  "SQUARE_TABLE =
     map (\<lambda>s. concat (map (\<lambda>k. map (\<lambda>l. ((s mod 3) * 3 + l, (s div 3) * 3 + k)) [0..<3]) [0..<3]))
       [0..<9]"

text \<open>
  Modelled from the spec: \<open>toDomainSudoku\<close> and \<open>toSimpleSudoku\<close> are imported
  from \<open>./common\<close>, which is not among the sources. A filled cell's domain is the
  singleton of its digit and an empty cell's domain is \<open>1..9\<close>; back, a domain
  with exactly one member gives that member and any other domain gives \<open>0\<close>.
\<close>

definition toDomainSudoku :: "SimpleSudoku \<Rightarrow> DomainSudoku" where
  "toDomainSudoku grid = map (map (\<lambda>n. if n = 0 then [1..<10] else [n])) grid"

definition toSimpleSudoku :: "DomainSudoku \<Rightarrow> SimpleSudoku" where
  "toSimpleSudoku domainSudoku =
     map (map (\<lambda>c. if length c = 1 then c ! 0 else 0)) domainSudoku"

text \<open>
  The array \<open>constraintCoordinates\<close> built for the cell popped as \<open>[x, y]\<close>:
  the other cells of the row, of the column and of the square, each pushed as
  \<open>[row, column]\<close>, that is \<open>[y, xx]\<close>, \<open>[yy, x]\<close> and \<open>[yy, xx]\<close>.
\<close>

definition constraintCoordinates :: "nat \<Rightarrow> nat \<Rightarrow> (nat \<times> nat) list" where
  "constraintCoordinates x y =
     map (\<lambda>xx. (y, xx)) (filter (\<lambda>xx. xx \<noteq> x) [0..<9]) @
     map (\<lambda>yy. (yy, x)) (filter (\<lambda>yy. yy \<noteq> y) [0..<9]) @
     map (\<lambda>(xx, yy). (yy, xx))
       (filter (\<lambda>(xx, yy). \<not> (xx = x \<and> yy = y)) (SQUARE_TABLE ! squareIndex x y))"

text \<open>
  The body of \<open>for (const [yy, xx] of constraintCoordinates)\<close>. The state is the
  working grid, \<open>domain1\<close> and \<open>change\<close>. \<open>domain1.indexOf(v)\<close> followed by
  \<open>domain1.splice(index, 1)\<close> removes the first occurrence of \<open>v\<close>.
\<close>

definition revise :: "nat \<Rightarrow> nat \<Rightarrow> DomainSudoku \<times> nat list \<times> bool \<Rightarrow> nat \<times> nat
    \<Rightarrow> DomainSudoku \<times> nat list \<times> bool" where
  "revise x y = (\<lambda>(sudoku, domain1, change) (yy, xx).
     (let domain2 = sudoku ! yy ! xx;
          changed = (length domain2 = 1 \<and> domain2 ! 0 \<in> set domain1);
          domain1' = (if changed then remove1 (domain2 ! 0) domain1 else domain1)
      in (sudoku[y := (sudoku ! y)[x := domain1']], domain1', change \<or> changed)))"

text \<open>
  Every read the loop body makes is inside the grid. When one is not, JavaScript
  reads \<open>undefined\<close> and the iteration ends in a \<open>TypeError\<close>
  (at \<open>sudoku[yy][xx]\<close>, \<open>domain2.length\<close>, \<open>domain1.indexOf\<close> or
  \<open>domain1.length\<close>).
\<close>

definition cell_in_range :: "DomainSudoku \<Rightarrow> nat \<times> nat \<Rightarrow> bool" where
  "cell_in_range sudoku = (\<lambda>(yy, xx). yy < length sudoku \<and> xx < length (sudoku ! yy))"

definition reads_in_range :: "DomainSudoku \<Rightarrow> nat \<Rightarrow> nat \<Rightarrow> bool" where
  "reads_in_range sudoku x y \<longleftrightarrow>
     squareIndex x y < length SQUARE_TABLE \<and> cell_in_range sudoku (y, x) \<and>
     list_all (cell_in_range sudoku) (constraintCoordinates x y)"

text \<open>
  The coordinate arrays in the queue are JavaScript objects: every array literal
  \<open>[x, y]\<close> is a new object, and lodash's \<open>uniq\<close> compares with SameValueZero,
  which on two arrays is object identity. A queue entry is therefore a reference
  (the number of the allocation that made it) with its two components, and
  \<open>uniq\<close> keeps the first occurrence of each reference.
\<close>

type_synonym coordinate = "nat \<times> nat \<times> nat"

definition sameValueZero :: "coordinate \<Rightarrow> coordinate \<Rightarrow> bool" where
  "sameValueZero a b \<longleftrightarrow> fst a = fst b"

definition uniq :: "coordinate list \<Rightarrow> coordinate list" where
  "uniq array =
     foldl (\<lambda>result v. if list_ex (\<lambda>seen. sameValueZero seen v) result then result
                        else result @ [v]) [] array"

text \<open>Allocating the arrays of a list of pairs, with references from \<open>n\<close> on.\<close>

definition allocate :: "nat \<Rightarrow> (nat \<times> nat) list \<Rightarrow> coordinate list" where
  "allocate n ps = map (\<lambda>(r, p). (r, fst p, snd p)) (enumerate n ps)"

definition total_size :: "DomainSudoku \<Rightarrow> nat" where
  "total_size sudoku = sum_list (map (\<lambda>row. sum_list (map length row)) sudoku)"

text \<open>
  The object \<open>{ sudoku, solvable, iterations }\<close> that \<open>ac3\<close> returns; its first
  field is named \<open>reduced\<close> here, \<open>sudoku\<close> being the working grid below.
\<close>

record ac3_result =
  reduced :: DomainSudoku
  solvable :: bool
  iterations :: nat

text \<open>
  The re-enqueue step for the entry popped as \<open>[x, y]\<close>:
  \<open>coordinatesQueue.push([x, y])\<close>, then
  \<open>coordinatesQueue = uniq([...coordinatesQueue, ...constraintCoordinates])\<close>.
  The arrays of \<open>constraintCoordinates\<close> were allocated first, with the references
  from \<open>n\<close> on, and the pushed array after them. An entry \<open>(r, a, b)\<close> of the queue
  is later destructured as \<open>[x, y] = [a, b]\<close> and read as the cell
  \<open>sudoku[y][x]\<close>: row \<open>b\<close>, column \<open>a\<close>.
\<close>

definition requeue :: "coordinate list \<Rightarrow> nat \<Rightarrow> nat \<Rightarrow> nat \<Rightarrow> coordinate list" where
  "requeue coordinatesQueue n x y =
     uniq ((coordinatesQueue @ [(n + length (constraintCoordinates x y), x, y)]) @
           allocate n (constraintCoordinates x y))"

definition denoted_cell :: "coordinate \<Rightarrow> nat \<times> nat" where
  "denoted_cell = (\<lambda>(r, x, y). (y, x))"

text \<open>
  One pass of the \<open>while\<close> loop for the entry \<open>[x, y]\<close> shifted off the queue:
  the grid after the pass, \<open>domain1\<close> and \<open>change\<close>.
\<close>

definition pass :: "DomainSudoku \<Rightarrow> nat \<Rightarrow> nat \<Rightarrow> DomainSudoku \<times> nat list \<times> bool" where
  "pass sudoku x y =
     foldl (revise x y) (sudoku, sudoku ! y ! x, False) (constraintCoordinates x y)"

text \<open>
  The \<open>while (coordinatesQueue.length > 0)\<close> loop. The third argument is the
  number of arrays allocated so far: each pass allocates the arrays of
  \<open>constraintCoordinates\<close>, with the references \<open>n\<close>, \<open>n + 1\<close>, ..., and a
  pass that changed the domain allocates the pushed \<open>[x, y]\<close> after them.
\<close>

function ac3_loop :: "DomainSudoku \<Rightarrow> coordinate list \<Rightarrow> nat \<Rightarrow> error + ac3_result" where
  "ac3_loop sudoku [] n = Inr \<lparr>reduced = sudoku, solvable = True, iterations = 1\<rparr>"
| "ac3_loop sudoku ((r, x, y) # coordinatesQueue) n =
     (if \<not> reads_in_range sudoku x y then Inl TypeError
      else
        (case pass sudoku x y of (sudoku', domain1, change) \<Rightarrow>
           if length domain1 = 0
           then Inr \<lparr>reduced = sudoku', solvable = False, iterations = 1\<rparr>
           else if change
           then ac3_loop sudoku' (requeue coordinatesQueue n x y)
                  (n + length (constraintCoordinates x y) + 1)
           else ac3_loop sudoku' coordinatesQueue (n + length (constraintCoordinates x y))))"
  by pat_completeness auto


text \<open>Termination: a pass that changes the domain shrinks the total size of the
  domains, and any other pass shortens the queue.\<close>

lemma sum_list_update_nat:
  "k < length xs \<Longrightarrow> sum_list (xs[k := (v::nat)]) + xs ! k = sum_list xs + v"
  by (induction xs arbitrary: k) (auto split: nat.splits)

lemma total_size_update:
  assumes "y < length s" "x < length (s ! y)"
  shows "total_size (s[y := (s ! y)[x := d]]) + length (s ! y ! x) = total_size s + length d"
proof -
  let ?f = "\<lambda>row. sum_list (map length row)"
  have row: "?f ((s ! y)[x := d]) + length (s ! y ! x) = ?f (s ! y) + length d"
    using assms(2) sum_list_update_nat [of x "map length (s ! y)" "length d"]
    by (simp add: map_update)
  have "sum_list ((map ?f s)[y := ?f ((s ! y)[x := d])]) + map ?f s ! y
      = sum_list (map ?f s) + ?f ((s ! y)[x := d])"
    using assms(1) by (intro sum_list_update_nat) simp
  then have "total_size (s[y := (s ! y)[x := d]]) + ?f (s ! y)
      = total_size s + ?f ((s ! y)[x := d])"
    using assms(1) by (simp add: total_size_def map_update)
  with row show ?thesis by linarith
qed

lemma revise_foldl:
  assumes "y < length s" "x < length (s ! y)" "s ! y ! x = d"
    and "foldl (revise x y) (s, d, ch) cs = (s', d', ch')"
  shows "s' = s[y := (s ! y)[x := d']] \<and> length d' \<le> length d \<and> set d' \<subseteq> set d \<and>
         (ch' \<longleftrightarrow> ch \<or> length d' < length d) \<and> (length d' = length d \<longrightarrow> d' = d)"
  using assms
proof (induction cs arbitrary: s d ch)
  case Nil
  then show ?case by auto
next
  case (Cons c cs)
  obtain yy xx where c: "c = (yy, xx)" by (cases c)
  define changed where "changed \<longleftrightarrow> length (s ! yy ! xx) = 1 \<and> s ! yy ! xx ! 0 \<in> set d"
  define d1 where "d1 = (if changed then remove1 (s ! yy ! xx ! 0) d else d)"
  define s1 where "s1 = s[y := (s ! y)[x := d1]]"
  have step: "revise x y (s, d, ch) c = (s1, d1, ch \<or> changed)"
    by (simp add: revise_def c changed_def d1_def s1_def Let_def)
  have rest: "foldl (revise x y) (s1, d1, ch \<or> changed) cs = (s', d', ch')"
    using Cons.prems(4) step by simp
  have s1: "y < length s1" "x < length (s1 ! y)" "s1 ! y ! x = d1"
    using Cons.prems(1,2) by (simp_all add: s1_def)
  note IH = Cons.IH [OF s1 rest]
  have upd: "s1[y := (s1 ! y)[x := d']] = s[y := (s ! y)[x := d']]"
    using Cons.prems(1) by (simp add: s1_def)
  have len1: "length d1 \<le> length d" "set d1 \<subseteq> set d"
    "changed \<longleftrightarrow> length d1 < length d" "length d1 = length d \<longrightarrow> d1 = d"
  proof -
    show "length d1 \<le> length d" by (simp add: d1_def length_remove1)
    show "set d1 \<subseteq> set d"
      using set_remove1_subset [of "s ! yy ! xx ! 0" d] by (simp add: d1_def)
    have pos: "s ! yy ! xx ! 0 \<in> set d \<Longrightarrow> 0 < length d"
      by (rule length_pos_if_in_set)
    show "changed \<longleftrightarrow> length d1 < length d"
      using pos by (auto simp: d1_def length_remove1 changed_def)
    then show "length d1 = length d \<longrightarrow> d1 = d"
      by (auto simp: d1_def)
  qed
  show ?case using IH len1 upd by auto
qed


lemma pass_props:
  assumes "cell_in_range sudoku (y, x)" and "pass sudoku x y = (s', d', ch')"
  shows "s' = sudoku[y := (sudoku ! y)[x := d']]"
    and "set d' \<subseteq> set (sudoku ! y ! x)"
    and "length d' \<le> length (sudoku ! y ! x)"
    and "ch' \<longleftrightarrow> length d' < length (sudoku ! y ! x)"
    and "\<not> ch' \<Longrightarrow> s' = sudoku"
    and "total_size s' + length (sudoku ! y ! x) = total_size sudoku + length d'"
proof -
  have r: "y < length sudoku" "x < length (sudoku ! y)"
    using assms(1) by (simp_all add: cell_in_range_def)
  note f = revise_foldl [OF r refl assms(2) [unfolded pass_def]]
  show 1: "s' = sudoku[y := (sudoku ! y)[x := d']]" using f by simp
  show "set d' \<subseteq> set (sudoku ! y ! x)" using f by simp
  show "length d' \<le> length (sudoku ! y ! x)" using f by simp
  show 4: "ch' \<longleftrightarrow> length d' < length (sudoku ! y ! x)" using f by simp
  show "s' = sudoku" if "\<not> ch'"
  proof -
    have "d' = sudoku ! y ! x" using f that by auto
    then show ?thesis using 1 by simp
  qed
  show "total_size s' + length (sudoku ! y ! x) = total_size sudoku + length d'"
    unfolding 1 by (rule total_size_update [OF r])
qed

termination ac3_loop
proof (relation "measures [\<lambda>(s, q, n). total_size s, \<lambda>(s, q, n). length q]", goal_cases)
  case 1
  show ?case by simp
next
  case (2 sudoku r x y coordinatesQueue n sudoku' rest domain1 change)
  then have "pass sudoku x y = (sudoku', domain1, change)"
    and "cell_in_range sudoku (y, x)" and "change"
    by (simp_all add: reads_in_range_def)
  from pass_props(4,6) [OF this(2) this(1)] this(3)
  show ?case by simp
next
  case (3 sudoku r x y coordinatesQueue n sudoku' rest domain1 change)
  then have "pass sudoku x y = (sudoku', domain1, change)"
    and "cell_in_range sudoku (y, x)" and "\<not> change"
    by (simp_all add: reads_in_range_def)
  from pass_props(5) [OF this(2) this(1)] this(3)
  show ?case by simp
qed

text \<open>
  \<open>ac3\<close>: the copy \<open>sudoku.map((r) => r.map((c) => c.slice()))\<close>, the initial
  queue of the 81 arrays \<open>[x, y]\<close> pushed with \<open>y\<close> in the outer loop, and the
  loop.
\<close>

definition ac3 :: "DomainSudoku \<Rightarrow> error + ac3_result" where
  "ac3 sudoku0 =
     (let sudoku = map (\<lambda>r. map (\<lambda>c. c) r) sudoku0;
          coordinatesQueue = allocate 0 (map (\<lambda>(y, x). (x, y)) coordinates)
      in ac3_loop sudoku coordinatesQueue 81)"

text \<open>
  \<open>AC3Strategy\<close>. \<open>isSudokuFilled\<close> and \<open>isSudokuValid\<close> are those of
  sudokus.ts; lodash's \<open>sortBy\<close> is a stable sort by key. The test
  \<open>if (!emptyCellCoordinates)\<close> never holds, an array being truthy, so that
  destructuring \<open>sortedPossibleRowAndCells[0]\<close> throws a \<open>TypeError\<close> when no
  cell has more than one candidate.
\<close>

definition AC3Strategy :: "SimpleSudoku \<Rightarrow> error + SimpleSudoku list" where
  "AC3Strategy sudoku =
     (case ac3 (toDomainSudoku sudoku) of
        Inl e \<Rightarrow> Inl e
      | Inr res \<Rightarrow>
          if \<not> solvable res then Inr []
          else
            (let reducedDomainSudoku = reduced res;
                 simpleSudoku = toSimpleSudoku reducedDomainSudoku
             in if isSudokuFilled simpleSudoku \<and> isSudokuValid simpleSudoku
                then Inr [simpleSudoku]
                else
                  (let emptyCellCoordinates =
                         filter (\<lambda>(i, j). length (reducedDomainSudoku ! i ! j) > 1) coordinates;
                       sortedPossibleRowAndCells =
                         sort_key (\<lambda>(rowIndex, cellIndex).
                           length (reducedDomainSudoku ! rowIndex ! cellIndex)) emptyCellCoordinates
                   in case sortedPossibleRowAndCells of
                        [] \<Rightarrow> Inl TypeError
                      | (rowIndex, cellIndex) # rest \<Rightarrow>
                          Inr (map (\<lambda>n. set_cell simpleSudoku rowIndex cellIndex n)
                                 (reducedDomainSudoku ! rowIndex ! cellIndex)))))"



section \<open>Validity as distinctness in the 27 constraint groups\<close>

text \<open>
  The specification's reading of validity: a constraint group is the list of the nine
  coordinates of a row, of a column or of a block, the block of \<open>(r, c)\<close> being
  \<open>(r / 3) * 3 + c / 3\<close>; a grid is valid when in each group the nonzero digits
  are pairwise distinct.
\<close>

definition cell :: "SimpleSudoku \<Rightarrow> nat \<times> nat \<Rightarrow> nat" where
  "cell sudoku = (\<lambda>(r, c). sudoku ! r ! c)"

definition row_group :: "nat \<Rightarrow> (nat \<times> nat) list" where
  "row_group r = map (\<lambda>c. (r, c)) [0..<9]"

definition column_group :: "nat \<Rightarrow> (nat \<times> nat) list" where
  "column_group c = map (\<lambda>r. (r, c)) [0..<9]"

definition block_group :: "nat \<Rightarrow> (nat \<times> nat) list" where
  "block_group b = filter (\<lambda>(r, c). (r div 3) * 3 + c div 3 = b) coordinates"

definition constraint_groups :: "(nat \<times> nat) list list" where
  "constraint_groups = map row_group [0..<9] @ map column_group [0..<9] @ map block_group [0..<9]"

definition nonzero_distinct :: "SimpleSudoku \<Rightarrow> (nat \<times> nat) list \<Rightarrow> bool" where
  "nonzero_distinct sudoku G \<longleftrightarrow>
     (\<forall>p \<in> set G. \<forall>q \<in> set G. p \<noteq> q \<and> cell sudoku p \<noteq> 0 \<longrightarrow> cell sudoku p \<noteq> cell sudoku q)"

definition groups_valid :: "SimpleSudoku \<Rightarrow> bool" where
  "groups_valid sudoku \<longleftrightarrow> (\<forall>G \<in> set constraint_groups. nonzero_distinct sudoku G)"

lemma sizes_agree_iff: "sizes_agree xs \<longleftrightarrow> distinct (filter (\<lambda>n. n \<noteq> 0) xs)"
proof -
  have "Set_delete 0 (new_Set xs) = remdups (filter (\<lambda>n. n \<noteq> 0) xs)"
    by (simp add: Set_delete_def new_Set_def removeAll_filter_not_eq remdups_filter)
  then show ?thesis
    by (simp add: sizes_agree_def length_remdups_eq remdups_id_iff_distinct)
qed

lemma distinct_filter_map:
  assumes "distinct ps"
  shows "distinct (filter P (map f ps)) \<longleftrightarrow>
         (\<forall>p \<in> set ps. \<forall>q \<in> set ps. p \<noteq> q \<and> P (f p) \<longrightarrow> f p \<noteq> f q)"
proof -
  have "filter P (map f ps) = map f (filter (P \<circ> f) ps)"
    by (simp add: filter_map)
  moreover have "distinct (filter (P \<circ> f) ps)" using assms by simp
  ultimately have "distinct (filter P (map f ps)) \<longleftrightarrow> inj_on f (set (filter (P \<circ> f) ps))"
    by (simp add: distinct_map)
  also have "\<dots> \<longleftrightarrow> (\<forall>p \<in> set ps. \<forall>q \<in> set ps. p \<noteq> q \<and> P (f p) \<longrightarrow> f p \<noteq> f q)"
    by (auto simp: inj_on_def)
  finally show ?thesis .
qed

lemma group_ok_iff:
  assumes "distinct G"
  shows "sizes_agree (map (cell sudoku) G) \<longleftrightarrow> nonzero_distinct sudoku G"
  unfolding sizes_agree_iff nonzero_distinct_def
  by (rule distinct_filter_map [OF assms])


lemma is_grid_length: "is_grid g \<Longrightarrow> length g = 9"
  and is_grid_row: "is_grid g \<Longrightarrow> i < 9 \<Longrightarrow> length (g ! i) = 9"
  by (auto simp: is_grid_def list_all_length)

lemma row_as_group:
  assumes "is_grid g" "i < 9"
  shows "g ! i = map (cell g) (row_group i)"
proof -
  have "map (cell g) (row_group i) = map (\<lambda>c. g ! i ! c) [0..<length (g ! i)]"
    using is_grid_row [OF assms] by (simp add: row_group_def cell_def comp_def)
  then show ?thesis by (simp add: map_nth)
qed

lemma column_as_group:
  assumes "is_grid g"
  shows "column_of g i = map (cell g) (column_group i)"
proof -
  have "map (\<lambda>row. row ! i) g = map (\<lambda>r. g ! r ! i) [0..<length g]"
    by (rule nth_equalityI) simp_all
  then show ?thesis
    using is_grid_length [OF assms] by (simp add: column_of_def column_group_def cell_def comp_def)
qed

lemma block_group_eq:
  "list_all (\<lambda>i. list_all (\<lambda>j.
     block_group (i * 3 + j) = concat (map (\<lambda>k. map (\<lambda>l. (i * 3 + k, j * 3 + l)) [0..<3]) [0..<3]))
     [0..<3]) [0..<3]"
  by code_simp

lemma square_as_group:
  assumes "i < 3" "j < 3"
  shows "square_of g i j = map (cell g) (block_group (i * 3 + j))"
proof -
  have "block_group (i * 3 + j) = concat (map (\<lambda>k. map (\<lambda>l. (i * 3 + k, j * 3 + l)) [0..<3]) [0..<3])"
    using block_group_eq assms by (simp add: list_all_iff)
  then show ?thesis
    by (simp add: square_of_def cell_def map_concat comp_def)
qed

lemma distinct_coordinates: "distinct coordinates"
  by code_simp

lemma distinct_groups:
  "distinct (row_group i)" "distinct (column_group i)" "distinct (block_group b)"
  using distinct_coordinates
  by (simp_all add: row_group_def column_group_def block_group_def distinct_map inj_on_def)

lemma all_blocks: "(\<forall>i<3. \<forall>j<3. P (i * 3 + j)) \<longleftrightarrow> (\<forall>b<9. P (b::nat))"
proof
  assume l: "\<forall>i<3. \<forall>j<3. P (i * 3 + j)"
  show "\<forall>b<9. P b"
  proof (intro allI impI)
    fix b :: nat assume "b < 9"
    then have "b div 3 < 3" "b mod 3 < 3" by simp_all
    with l have "P (b div 3 * 3 + b mod 3)" by blast
    then show "P b" by simp
  qed
next
  assume r: "\<forall>b<9. P b"
  show "\<forall>i<3. \<forall>j<3. P (i * 3 + j)"
  proof (intro allI impI)
    fix i j :: nat assume "i < 3" "j < 3"
    then have "i * 3 + j < 9" by simp
    with r show "P (i * 3 + j)" by blast
  qed
qed

lemma list_all_upt: "list_all P [0..<n] \<longleftrightarrow> (\<forall>i<n. P i)"
  by (auto simp: list_all_iff)

lemma isSudokuValid_iff_groups:
  assumes "is_grid g"
  shows "isSudokuValid g \<longleftrightarrow> groups_valid g"
proof -
  have rows: "list_all (\<lambda>i. sizes_agree (g ! i)) [0..<9]
      \<longleftrightarrow> (\<forall>i<9. nonzero_distinct g (row_group i))"
    using row_as_group [OF assms] group_ok_iff [OF distinct_groups(1)]
    by (simp add: list_all_upt)
  have cols: "list_all (\<lambda>i. sizes_agree (column_of g i)) [0..<9]
      \<longleftrightarrow> (\<forall>i<9. nonzero_distinct g (column_group i))"
    using column_as_group [OF assms] group_ok_iff [OF distinct_groups(2)]
    by (simp add: list_all_upt)
  have "list_all (\<lambda>i. list_all (\<lambda>j. sizes_agree (square_of g i j)) [0..<3]) [0..<3]
      \<longleftrightarrow> (\<forall>i<3. \<forall>j<3. nonzero_distinct g (block_group (i * 3 + j)))"
    using square_as_group group_ok_iff [OF distinct_groups(3)]
    by (simp add: list_all_upt)
  then have blocks: "list_all (\<lambda>i. list_all (\<lambda>j. sizes_agree (square_of g i j)) [0..<3]) [0..<3]
      \<longleftrightarrow> (\<forall>b<9. nonzero_distinct g (block_group b))"
    using all_blocks [of "\<lambda>b. nonzero_distinct g (block_group b)"] by simp
  have "groups_valid g \<longleftrightarrow> (\<forall>i<9. nonzero_distinct g (row_group i)) \<and>
      (\<forall>i<9. nonzero_distinct g (column_group i)) \<and> (\<forall>b<9. nonzero_distinct g (block_group b))"
    by (auto simp: groups_valid_def constraint_groups_def)
  with rows cols blocks show ?thesis
    by (simp add: isSudokuValid_def)
qed


lemma length_constraint_groups: "length constraint_groups = 27"
  by (simp add: constraint_groups_def)

definition empty_grid :: SimpleSudoku where
  "empty_grid = replicate 9 (replicate 9 0)"

definition solved_grid :: SimpleSudoku where
  "solved_grid =
    [[5, 3, 4, 6, 7, 8, 9, 1, 2],
     [6, 7, 2, 1, 9, 5, 3, 4, 8],
     [1, 9, 8, 3, 4, 2, 5, 6, 7],
     [8, 5, 9, 7, 6, 1, 4, 2, 3],
     [4, 2, 6, 8, 5, 3, 7, 9, 1],
     [7, 1, 3, 9, 2, 4, 8, 5, 6],
     [9, 6, 1, 5, 3, 7, 2, 8, 4],
     [2, 8, 7, 4, 1, 9, 6, 3, 5],
     [3, 4, 5, 2, 8, 6, 1, 7, 9]]"

lemma is_grid_solved_grid: "is_grid solved_grid"
  by code_simp

lemma isSudokuValid_solved_grid: "isSudokuValid solved_grid"
  by code_simp

lemma isSudokuFilled_solved_grid: "isSudokuFilled solved_grid"
  by code_simp

text \<open>
  C9. On a grid of nine rows of nine cells, \<open>isSudokuValid\<close> holds exactly when in each
  of the 27 constraint groups (rows, columns, blocks) the nonzero digits are pairwise
  distinct, zeros being ignored; the all-zero grid is valid and is not filled.
\<close>

theorem isSudokuValid_groups:
  "(is_grid sudoku \<longrightarrow> (isSudokuValid sudoku \<longleftrightarrow> groups_valid sudoku)) \<and>
   isSudokuValid empty_grid \<and> \<not> isSudokuFilled empty_grid"
proof (intro conjI impI)
  assume "is_grid sudoku"
  then show "isSudokuValid sudoku \<longleftrightarrow> groups_valid sudoku"
    by (rule isSudokuValid_iff_groups)
next
  show "isSudokuValid empty_grid" by code_simp
next
  show "\<not> isSudokuFilled empty_grid" by code_simp
qed

theorem isSudokuValid_groups_witness:
  "is_grid solved_grid \<and> isSudokuValid solved_grid \<and> groups_valid solved_grid"
  using isSudokuValid_groups [of solved_grid] is_grid_solved_grid isSudokuValid_solved_grid
  by simp


section \<open>The strategies of sudokus.ts\<close>

subsection \<open>Grids without an empty cell\<close>

lemma set_coordinates: "(i, j) \<in> set coordinates \<longleftrightarrow> i < 9 \<and> j < 9"
  by (auto simp: coordinates_def image_iff)

lemma isSudokuFilled_iff: "isSudokuFilled g \<longleftrightarrow> (\<forall>i<9. \<forall>j<9. g ! i ! j \<noteq> 0)"
  by (simp add: isSudokuFilled_def list_all_upt)

lemma getEmptyCoordinates_filled: "isSudokuFilled g \<Longrightarrow> getEmptyCoordinates g = []"
  by (auto simp: getEmptyCoordinates_def isSudokuFilled_iff filter_empty_conv set_coordinates)

lemma first_empty_filled: "isSudokuFilled g \<Longrightarrow> first_empty g = None"
  by (auto simp: first_empty_def isSudokuFilled_iff find_None_iff set_coordinates)

lemma bruteForceStrategy_filled: "isSudokuFilled g \<Longrightarrow> bruteForceStrategy g = []"
  by (simp add: bruteForceStrategy_def first_empty_filled)

lemma withValidCheckStrategy_filled: "isSudokuFilled g \<Longrightarrow> withValidCheckStrategy g = []"
  by (simp add: withValidCheckStrategy_def first_empty_filled)

lemma minimumRemainingValueStrategy_filled:
  "isSudokuFilled g \<Longrightarrow> minimumRemainingValueStrategy g = Inl TypeError"
  by (simp add: minimumRemainingValueStrategy_def getEmptyCoordinates_filled)


text \<open>
  C4. On the filled grid \<open>solved_grid\<close>, \<open>bruteForceStrategy\<close> and
  \<open>withValidCheckStrategy\<close> return the empty list, and
  \<open>minimumRemainingValueStrategy\<close> throws a \<open>TypeError\<close>: it destructures the
  first element of an empty array.
\<close>

theorem filled_grid_strategies:
  "bruteForceStrategy solved_grid = [] \<and> withValidCheckStrategy solved_grid = [] \<and>
   minimumRemainingValueStrategy solved_grid = Inl TypeError"
  using isSudokuFilled_solved_grid
  by (simp add: bruteForceStrategy_filled withValidCheckStrategy_filled
      minimumRemainingValueStrategy_filled)


subsection \<open>The cell chosen by the minimum-remaining-value strategy\<close>








lemma coordinates_product: "coordinates = List.product [0..<9] [0..<9]"
  by (simp only: coordinates_def product_concat_map)

lemma length_coordinates: "length coordinates = 81"
  by (simp add: coordinates_product)












definition puzzle_grid :: SimpleSudoku where
  "puzzle_grid =
    [[5, 3, 0, 0, 7, 0, 0, 0, 0],
     [6, 0, 0, 1, 9, 5, 0, 0, 0],
     [0, 9, 8, 0, 0, 0, 0, 6, 0],
     [8, 0, 0, 0, 6, 0, 0, 0, 3],
     [4, 0, 0, 8, 0, 3, 0, 0, 1],
     [7, 0, 0, 0, 2, 0, 0, 0, 6],
     [0, 6, 0, 0, 0, 0, 2, 8, 0],
     [0, 0, 0, 4, 1, 9, 0, 0, 5],
     [0, 0, 0, 0, 8, 0, 0, 7, 9]]"

lemma is_grid_puzzle_grid: "is_grid puzzle_grid"
  by code_simp




subsection \<open>Children that differ from the parent in one cell\<close>



lemma is_grid_set_cell:
  assumes "is_grid g"
  shows "is_grid (set_cell g i j k)"
proof -
  have "length (g[i := (g ! i)[j := k]] ! n) = 9" if "n < 9" for n
    using is_grid_length [OF assms] is_grid_row [OF assms that] is_grid_row [OF assms, of i] that
    by (cases "n = i") simp_all
  then show ?thesis
    using is_grid_length [OF assms] by (simp add: is_grid_def set_cell_def list_all_length)
qed











section \<open>The reducer on 9 by 9 domain grids\<close>

definition is_domain_grid :: "DomainSudoku \<Rightarrow> bool" where
  "is_domain_grid sudoku \<longleftrightarrow> length sudoku = 9 \<and> list_all (\<lambda>row. length row = 9) sudoku"

lemma is_domain_grid_length: "is_domain_grid s \<Longrightarrow> length s = 9"
  and is_domain_grid_row: "is_domain_grid s \<Longrightarrow> i < 9 \<Longrightarrow> length (s ! i) = 9"
  by (auto simp: is_domain_grid_def list_all_length)

lemma SQUARE_TABLE_nth:
  "s < 9 \<Longrightarrow> SQUARE_TABLE ! s =
     concat (map (\<lambda>k. map (\<lambda>l. ((s mod 3) * 3 + l, (s div 3) * 3 + k)) [0..<3]) [0..<3])"
  by (simp add: SQUARE_TABLE_def)

lemma div3_less: "a < 9 \<Longrightarrow> a div 3 < (3::nat)"
  by (simp add: div_less_iff_less_mult)

lemma div3_less_iff: "a div 3 < 3 \<longleftrightarrow> a < (9::nat)"
  by (simp add: div_less_iff_less_mult)

lemma squareIndex_less:
  assumes "x < 9" "y < 9"
  shows "squareIndex x y < 9"
  using div3_less [OF assms(1)] div3_less [OF assms(2)] by (simp add: squareIndex_def)

lemma squareIndex_mod: "x < 9 \<Longrightarrow> squareIndex x y mod 3 = x div 3"
  using div3_less [of x] by (simp add: squareIndex_def)

lemma squareIndex_div: "x < 9 \<Longrightarrow> squareIndex x y div 3 = y div 3"
  using div3_less [of x] by (simp add: squareIndex_def)

lemma set_square:
  assumes "x < 9" "y < 9"
  shows "set (SQUARE_TABLE ! squareIndex x y) =
         {(xx, yy). xx div 3 = x div 3 \<and> yy div 3 = y div 3}"
proof -
  have "set (SQUARE_TABLE ! squareIndex x y) =
      {((x div 3) * 3 + l, (y div 3) * 3 + k) | k l. k < 3 \<and> l < 3}"
    using assms
    by (auto simp: SQUARE_TABLE_nth squareIndex_less squareIndex_mod squareIndex_div)
  also have "\<dots> = {(xx, yy). xx div 3 = x div 3 \<and> yy div 3 = y div 3}"
  proof (intro set_eqI iffI; clarify)
    fix k l :: nat assume "k < 3" "l < 3"
    then show "(x div 3 * 3 + l) div 3 = x div 3 \<and> (y div 3 * 3 + k) div 3 = y div 3" by simp
  next
    fix xx yy :: nat assume "xx div 3 = x div 3" "yy div 3 = y div 3"
    then have "xx = x div 3 * 3 + xx mod 3" "yy = y div 3 * 3 + yy mod 3"
      by (metis div_mult_mod_eq)+
    moreover have "xx mod 3 < 3" "yy mod 3 < 3" by simp_all
    ultimately show "\<exists>k l. (xx, yy) = (x div 3 * 3 + l, y div 3 * 3 + k) \<and> k < 3 \<and> l < 3"
      by blast
  qed
  finally show ?thesis .
qed

lemma set_constraintCoordinates:
  assumes "x < 9" "y < 9"
  shows "set (constraintCoordinates x y) =
         {(yy, xx). yy < 9 \<and> xx < 9 \<and> (yy, xx) \<noteq> (y, x) \<and>
            (yy = y \<or> xx = x \<or> (yy div 3 = y div 3 \<and> xx div 3 = x div 3))}"
proof -
  have d: "\<And>a::nat. a div 3 = x div 3 \<Longrightarrow> a < 9" "\<And>a::nat. a div 3 = y div 3 \<Longrightarrow> a < 9"
    using div3_less [OF assms(1)] div3_less [OF assms(2)] div3_less_iff by metis+
  show ?thesis
    using assms d
    by (auto simp: constraintCoordinates_def set_square image_iff)
qed


lemma uniq_foldl:
  "distinct (map fst (acc @ q)) \<Longrightarrow>
   foldl (\<lambda>result v. if list_ex (\<lambda>seen. sameValueZero seen v) result then result
                      else result @ [v]) acc q = acc @ q"
proof (induction q arbitrary: acc)
  case Nil
  then show ?case by simp
next
  case (Cons v q)
  have nv: "fst v \<notin> fst ` set acc" using Cons.prems by auto
  have "\<not> list_ex (\<lambda>seen. sameValueZero seen v) acc"
  proof
    assume "list_ex (\<lambda>seen. sameValueZero seen v) acc"
    then obtain seen where "seen \<in> set acc" "fst seen = fst v"
      unfolding list_ex_iff sameValueZero_def by blast
    then have "fst v \<in> fst ` set acc" by (metis imageI)
    with nv show False by simp
  qed
  moreover have "distinct (map fst ((acc @ [v]) @ q))" using Cons.prems by simp
  ultimately show ?case using Cons.IH [of "acc @ [v]"] by simp
qed

lemma uniq_distinct: "distinct (map fst q) \<Longrightarrow> uniq q = q"
  using uniq_foldl [of "[]" q] by (simp add: uniq_def)

lemma map_fst_allocate: "map fst (allocate n ps) = [n..<n + length ps]"
  by (simp add: allocate_def comp_def case_prod_unfold map_fst_enumerate)

lemma map_snd_allocate: "map snd (allocate n ps) = ps"
  by (simp add: allocate_def comp_def case_prod_unfold map_snd_enumerate)

text \<open>
  The queue invariant: the references of the entries are pairwise distinct and below
  the allocation counter, and the components of every entry are below nine. Under it
  \<open>uniq\<close> returns its argument.
\<close>

definition queue_ok :: "coordinate list \<Rightarrow> nat \<Rightarrow> bool" where
  "queue_ok q n \<longleftrightarrow>
     distinct (map fst q) \<and> (\<forall>e \<in> set q. fst e < n \<and> fst (snd e) < 9 \<and> snd (snd e) < 9)"

lemma requeue_ok:
  assumes "queue_ok ((r, x, y) # q) n"
  shows "requeue q n x y
         = (q @ [(n + length (constraintCoordinates x y), x, y)]) @
             allocate n (constraintCoordinates x y)" (is "_ = ?q'")
    and "queue_ok ((q @ [(n + length (constraintCoordinates x y), x, y)]) @
               allocate n (constraintCoordinates x y)) (n + length (constraintCoordinates x y) + 1)"
proof -
  let ?cc = "constraintCoordinates x y"
  have xy: "x < 9" "y < 9" and q: "distinct (map fst q)" "\<forall>e \<in> set q. fst e < n"
    using assms by (auto simp: queue_ok_def)
  have d: "distinct (map fst ?q')"
    using q by (auto simp: map_fst_allocate)
  show "requeue q n x y = ?q'" unfolding requeue_def by (rule uniq_distinct [OF d])
  have "\<forall>e \<in> set (allocate n ?cc). fst e < n + length ?cc + 1 \<and> snd e \<in> set ?cc"
  proof
    fix e assume e: "e \<in> set (allocate n ?cc)"
    then have "fst e \<in> set (map fst (allocate n ?cc))" "snd e \<in> set (map snd (allocate n ?cc))"
      by (auto simp del: map_fst_allocate)
    then show "fst e < n + length ?cc + 1 \<and> snd e \<in> set ?cc"
      by (simp add: map_fst_allocate map_snd_allocate)
  qed
  moreover have "\<forall>p \<in> set ?cc. fst p < 9 \<and> snd p < 9"
    by (auto simp: set_constraintCoordinates [OF xy])
  ultimately have "\<forall>e \<in> set (allocate n ?cc).
      fst e < n + length ?cc + 1 \<and> fst (snd e) < 9 \<and> snd (snd e) < 9"
    by blast
  moreover have "\<forall>e \<in> set q. fst e < n + length ?cc + 1 \<and> fst (snd e) < 9 \<and> snd (snd e) < 9"
    using assms by (auto simp: queue_ok_def)
  ultimately show "queue_ok ?q' (n + length ?cc + 1)"
    using d xy unfolding queue_ok_def by auto
qed

lemma queue_ok_tail: "queue_ok (e # q) n \<Longrightarrow> queue_ok q (n + k)"
  by (auto simp: queue_ok_def)

lemma reads_in_range_grid:
  assumes "is_domain_grid s" "x < 9" "y < 9"
  shows "reads_in_range s x y"
proof -
  have "cell_in_range s p" if "fst p < 9" "snd p < 9" for p
    using that is_domain_grid_length [OF assms(1)] is_domain_grid_row [OF assms(1), of "fst p"]
    by (simp add: cell_in_range_def case_prod_unfold)
  then show ?thesis
    using assms(2,3) squareIndex_less [OF assms(2,3)]
    by (auto simp: reads_in_range_def list_all_iff set_constraintCoordinates SQUARE_TABLE_def)
qed

lemma is_domain_grid_update:
  assumes "is_domain_grid s"
  shows "is_domain_grid (s[y := (s ! y)[x := d]])"
proof -
  have "length (s[y := (s ! y)[x := d]] ! n) = 9" if "n < 9" for n
    using is_domain_grid_length [OF assms] is_domain_grid_row [OF assms that]
      is_domain_grid_row [OF assms, of y] that
    by (cases "n = y") simp_all
  then show ?thesis
    using is_domain_grid_length [OF assms] by (simp add: is_domain_grid_def list_all_length)
qed

lemma ac3_loop_Cons:
  assumes "reads_in_range s x y" "pass s x y = (s', d, ch)"
  shows "ac3_loop s ((r, x, y) # q) n =
     (if d = [] then Inr \<lparr>reduced = s', solvable = False, iterations = 1\<rparr>
      else if ch
      then ac3_loop s' (requeue q n x y) (n + length (constraintCoordinates x y) + 1)
      else ac3_loop s' q (n + length (constraintCoordinates x y)))"
  by (simp only: ac3_loop.simps assms not_True_eq_False if_False split_conv length_0_conv)

text \<open>
  An invariant rule for the loop on a 9 by 9 domain grid: \<open>Q\<close> relates the working
  grid to the coordinates in the queue, \<open>F\<close> is what the rule gives of the result.
\<close>

lemma ac3_loop_rule:
  assumes "is_domain_grid s" "queue_ok q n" "Q s (map snd q)"
    and base: "\<And>s. is_domain_grid s \<Longrightarrow> Q s [] \<Longrightarrow> F \<lparr>reduced = s, solvable = True, iterations = 1\<rparr>"
    and fail: "\<And>s x y q s' ch. \<lbrakk>is_domain_grid s; x < 9; y < 9; Q s ((x, y) # q);
                 pass s x y = (s', [], ch)\<rbrakk>
               \<Longrightarrow> F \<lparr>reduced = s', solvable = False, iterations = 1\<rparr>"
    and changed: "\<And>s x y q s' d. \<lbrakk>is_domain_grid s; x < 9; y < 9; Q s ((x, y) # q);
                 pass s x y = (s', d, True); d \<noteq> []\<rbrakk>
               \<Longrightarrow> Q s' (q @ (x, y) # constraintCoordinates x y)"
    and same: "\<And>s x y q s' d. \<lbrakk>is_domain_grid s; x < 9; y < 9; Q s ((x, y) # q);
                 pass s x y = (s', d, False); d \<noteq> []\<rbrakk>
               \<Longrightarrow> Q s' q"
  shows "\<exists>res. ac3_loop s q n = Inr res \<and> F res"
  using assms(1-3)
proof (induction s q n rule: ac3_loop.induct)
  case (1 sudoku n)
  then show ?case using base by (simp del: ac3_loop.simps(2))
next
  case (2 sudoku r x y coordinatesQueue n)
  let ?cc = "constraintCoordinates x y"
  have xy: "x < 9" "y < 9" using "2.prems"(2) by (auto simp: queue_ok_def)
  have rr: "reads_in_range sudoku x y" by (rule reads_in_range_grid [OF "2.prems"(1) xy])
  obtain s' d ch where p: "pass sudoku x y = (s', d, ch)" by (cases "pass sudoku x y")
  have cr: "cell_in_range sudoku (y, x)" using rr by (simp add: reads_in_range_def)
  have s': "is_domain_grid s'"
    unfolding pass_props(1) [OF cr p] by (rule is_domain_grid_update [OF "2.prems"(1)])
  have Q: "Q sudoku ((x, y) # map snd coordinatesQueue)" using "2.prems"(3) by simp
  show ?case
  proof (cases "d = []")
    case True
    then show ?thesis unfolding ac3_loop_Cons [OF rr p] using p fail [OF "2.prems"(1) xy Q] by simp
  next
    case False
    show ?thesis
    proof (cases ch)
      case True
      let ?q' = "(coordinatesQueue @ [(n + length ?cc, x, y)]) @ allocate n ?cc"
      note rq = requeue_ok [OF "2.prems"(2)]
      have "Q s' (map snd coordinatesQueue @ (x, y) # ?cc)"
        using changed [OF "2.prems"(1) xy Q] p True False by simp
      then have "Q s' (map snd ?q')" by (simp add: map_snd_allocate)
      then have "Q s' (map snd (requeue coordinatesQueue n x y))" by (simp only: rq(1))
      moreover have "queue_ok (requeue coordinatesQueue n x y) (n + length ?cc + 1)"
        using rq by (simp only:)
      ultimately have "\<exists>res. ac3_loop s' (requeue coordinatesQueue n x y) (n + length ?cc + 1)
          = Inr res \<and> F res"
        using "2.IH"(1) [OF _ p [symmetric] refl _ True s'] rr False by simp
      then show ?thesis unfolding ac3_loop_Cons [OF rr p] using True False by simp
    next
      case ch: False
      have "Q s' (map snd coordinatesQueue)"
        using same [OF "2.prems"(1) xy Q] p ch False by simp
      then have "\<exists>res. ac3_loop s' coordinatesQueue (n + length ?cc) = Inr res \<and> F res"
        using "2.IH"(2) [OF _ p [symmetric] refl _ ch s'] rr False
          queue_ok_tail [OF "2.prems"(2), of "length ?cc"] by simp
      then show ?thesis unfolding ac3_loop_Cons [OF rr p] using ch False by simp
    qed
  qed
qed


lemma grid_update_nth:
  assumes "is_domain_grid s" "x < 9" "y < 9" "r < 9" "c < 9"
  shows "s[y := (s ! y)[x := d]] ! r ! c = (if r = y \<and> c = x then d else s ! r ! c)"
  using is_domain_grid_length [OF assms(1)] is_domain_grid_row [OF assms(1)] assms(2-)
  by (simp add: nth_list_update)

lemma grid_update_other:
  assumes "y < length s" "(yy, xx) \<noteq> (y, x)"
  shows "s[y := (s ! y)[x := d]] ! yy ! xx = s ! yy ! xx"
  using assms by (cases "yy = y") simp_all

lemma revise_foldl_removed:
  assumes "y < length s" "x < length (s ! y)" "s ! y ! x = d" "(y, x) \<notin> set cs"
    and "foldl (revise x y) (s, d, ch) cs = (s', d', ch')"
  shows "\<forall>v \<in> set d - set d'. \<exists>(yy, xx) \<in> set cs. s ! yy ! xx = [v]"
  using assms
proof (induction cs arbitrary: s d ch)
  case Nil
  then show ?case by simp
next
  case (Cons c cs)
  obtain yy xx where c: "c = (yy, xx)" by (cases c)
  define changed where "changed \<longleftrightarrow> length (s ! yy ! xx) = 1 \<and> s ! yy ! xx ! 0 \<in> set d"
  define d1 where "d1 = (if changed then remove1 (s ! yy ! xx ! 0) d else d)"
  define s1 where "s1 = s[y := (s ! y)[x := d1]]"
  have step: "revise x y (s, d, ch) c = (s1, d1, ch \<or> changed)"
    by (simp add: revise_def c changed_def d1_def s1_def Let_def)
  have rest: "foldl (revise x y) (s1, d1, ch \<or> changed) cs = (s', d', ch')"
    using Cons.prems(5) step by simp
  have s1: "y < length s1" "x < length (s1 ! y)" "s1 ! y ! x = d1"
    using Cons.prems(1,2) by (simp_all add: s1_def)
  have notin: "(y, x) \<notin> set cs" using Cons.prems(4) by simp
  note IH = Cons.IH [OF s1 notin rest]
  show ?case
  proof
    fix v assume v: "v \<in> set d - set d'"
    show "\<exists>(yy, xx) \<in> set (c # cs). s ! yy ! xx = [v]"
    proof (cases "v \<in> set d1")
      case True
      with IH v obtain p where p: "p \<in> set cs" "s1 ! fst p ! snd p = [v]" by fastforce
      then have "p \<noteq> (y, x)" using notin by auto
      then have "s1 ! fst p ! snd p = s ! fst p ! snd p"
        unfolding s1_def using grid_update_other [OF Cons.prems(1), of "fst p" "snd p" x d1] by simp
      with p show ?thesis by (auto simp: case_prod_unfold)
    next
      case False
      with v have ch: "changed" by (auto simp: d1_def split: if_splits)
      then have "d1 = remove1 (s ! yy ! xx ! 0) d" by (simp add: d1_def)
      with False v have "v = s ! yy ! xx ! 0"
        using in_set_remove1 [of v "s ! yy ! xx ! 0" d] by auto
      moreover from ch have "length (s ! yy ! xx) = 1" by (simp add: changed_def)
      ultimately have "s ! yy ! xx = [v]"
        by (cases "s ! yy ! xx") simp_all
      then show ?thesis by (simp add: c)
    qed
  qed
qed

lemma revise_foldl_stable:
  assumes "y < length s" "x < length (s ! y)" "s ! y ! x = d"
    and "\<forall>(yy, xx) \<in> set cs. \<not> (length (s ! yy ! xx) = 1 \<and> s ! yy ! xx ! 0 \<in> set d)"
  shows "foldl (revise x y) (s, d, ch) cs = (s, d, ch)"
  using assms(4)
proof (induction cs)
  case Nil
  then show ?case by simp
next
  case (Cons c cs)
  obtain yy xx where c: "c = (yy, xx)" by (cases c)
  have nc: "\<not> (length (s ! yy ! xx) = 1 \<and> s ! yy ! xx ! 0 \<in> set d)"
    using Cons.prems c by simp
  have "(s ! y)[x := d] = s ! y"
    unfolding assms(3) [symmetric] by (rule list_update_id)
  then have "s[y := (s ! y)[x := d]] = s"
    by (simp only: list_update_id)
  then have "revise x y (s, d, ch) c = (s, d, ch)"
    using nc by (auto simp: revise_def c Let_def)
  with Cons show ?case by simp
qed

lemma constraintCoordinates_not_self: "(y, x) \<notin> set (constraintCoordinates x y)"
  by (auto simp: constraintCoordinates_def)

lemma pass_grid:
  assumes "is_domain_grid s" "x < 9" "y < 9" "pass s x y = (s', d, ch)"
  shows "is_domain_grid s'"
    and "\<And>r c. r < 9 \<Longrightarrow> c < 9 \<Longrightarrow> s' ! r ! c = (if r = y \<and> c = x then d else s ! r ! c)"
    and "set d \<subseteq> set (s ! y ! x)"
    and "\<forall>v \<in> set (s ! y ! x) - set d. \<exists>(yy, xx) \<in> set (constraintCoordinates x y). s ! yy ! xx = [v]"
proof -
  have r: "y < length s" "x < length (s ! y)"
    using is_domain_grid_length [OF assms(1)] is_domain_grid_row [OF assms(1)] assms(2,3) by simp_all
  then have cr: "cell_in_range s (y, x)" by (simp add: cell_in_range_def)
  note pp = pass_props [OF cr assms(4)]
  show "is_domain_grid s'" unfolding pp(1) by (rule is_domain_grid_update [OF assms(1)])
  show "s' ! r ! c = (if r = y \<and> c = x then d else s ! r ! c)" if "r < 9" "c < 9" for r c
    unfolding pp(1) by (rule grid_update_nth [OF assms(1-3) that])
  show "set d \<subseteq> set (s ! y ! x)" by (rule pp(2))
  show "\<forall>v \<in> set (s ! y ! x) - set d. \<exists>(yy, xx) \<in> set (constraintCoordinates x y). s ! yy ! xx = [v]"
    by (rule revise_foldl_removed [OF r refl constraintCoordinates_not_self assms(4) [unfolded pass_def]])
qed



section \<open>Properties of the reducer\<close>

lemma initial_queue_ok: "queue_ok (allocate 0 (map (\<lambda>(y, x). (x, y)) coordinates)) 81"
proof -
  let ?ps = "map (\<lambda>(y, x). (x, y)) coordinates"
  have len: "length ?ps = 81" by (simp add: length_coordinates)
  have "\<forall>p \<in> set ?ps. fst p < 9 \<and> snd p < 9"
    by (auto simp: set_coordinates)
  moreover have "\<forall>e \<in> set (allocate 0 ?ps). fst e < 81 \<and> snd e \<in> set ?ps"
  proof
    fix e assume e: "e \<in> set (allocate 0 ?ps)"
    then have "fst e \<in> set (map fst (allocate 0 ?ps))" "snd e \<in> set (map snd (allocate 0 ?ps))"
      by (auto simp del: map_fst_allocate)
    then show "fst e < 81 \<and> snd e \<in> set ?ps"
      unfolding map_fst_allocate map_snd_allocate len by simp
  qed
  ultimately have "\<forall>e \<in> set (allocate 0 ?ps). fst e < 81 \<and> fst (snd e) < 9 \<and> snd (snd e) < 9"
    by blast
  moreover have "distinct (map fst (allocate 0 ?ps))"
    by (simp only: map_fst_allocate distinct_upt)
  ultimately show ?thesis by (simp only: queue_ok_def simp_thms)
qed

lemma initial_queue_coordinates:
  "map snd (allocate 0 (map (\<lambda>(y, x). (x, y)) coordinates)) = map (\<lambda>(y, x). (x, y)) coordinates"
  by (rule map_snd_allocate)

lemma ac3_unfold:
  "ac3 D = ac3_loop D (allocate 0 (map (\<lambda>(y, x). (x, y)) coordinates)) 81"
  by (simp add: ac3_def)

lemma ac3_rule:
  assumes "is_domain_grid D" "Q D (map (\<lambda>(y, x). (x, y)) coordinates)"
    and base: "\<And>s. is_domain_grid s \<Longrightarrow> Q s [] \<Longrightarrow> F \<lparr>reduced = s, solvable = True, iterations = 1\<rparr>"
    and fail: "\<And>s x y q s' ch. \<lbrakk>is_domain_grid s; x < 9; y < 9; Q s ((x, y) # q);
                 pass s x y = (s', [], ch)\<rbrakk>
               \<Longrightarrow> F \<lparr>reduced = s', solvable = False, iterations = 1\<rparr>"
    and changed: "\<And>s x y q s' d. \<lbrakk>is_domain_grid s; x < 9; y < 9; Q s ((x, y) # q);
                 pass s x y = (s', d, True); d \<noteq> []\<rbrakk>
               \<Longrightarrow> Q s' (q @ (x, y) # constraintCoordinates x y)"
    and same: "\<And>s x y q s' d. \<lbrakk>is_domain_grid s; x < 9; y < 9; Q s ((x, y) # q);
                 pass s x y = (s', d, False); d \<noteq> []\<rbrakk>
               \<Longrightarrow> Q s' q"
  shows "\<exists>res. ac3 D = Inr res \<and> F res"
  unfolding ac3_unfold
proof (rule ac3_loop_rule [where Q = Q, OF assms(1) initial_queue_ok])
  show "Q D (map snd (allocate 0 (map (\<lambda>(y, x). (x, y)) coordinates)))"
    unfolding initial_queue_coordinates by (rule assms(2))
qed (fact base fail changed same)+

lemma ac3_returns:
  assumes "is_domain_grid D"
  shows "\<exists>res. ac3 D = Inr res"
  using ac3_rule [where Q = "\<lambda>_ _. True" and F = "\<lambda>_. True", OF assms] by simp

definition shrunk :: "DomainSudoku \<Rightarrow> DomainSudoku \<Rightarrow> bool" where
  "shrunk s D \<longleftrightarrow>
     (\<forall>r<9. \<forall>c<9. set (s ! r ! c) \<subseteq> set (D ! r ! c) \<and> length (s ! r ! c) \<le> length (D ! r ! c))"

lemma pass_shrunk:
  assumes "is_domain_grid s" "x < 9" "y < 9" "pass s x y = (s', d, ch)" "shrunk s D"
  shows "shrunk s' D"
  unfolding shrunk_def
proof (intro allI impI)
  fix r c :: nat assume rc: "r < 9" "c < 9"
  have cr: "cell_in_range s (y, x)"
    using is_domain_grid_length [OF assms(1)] is_domain_grid_row [OF assms(1)] assms(2,3)
    by (simp add: cell_in_range_def)
  have "set (s' ! r ! c) \<subseteq> set (s ! r ! c) \<and> length (s' ! r ! c) \<le> length (s ! r ! c)"
    using pass_grid(2) [OF assms(1-4) rc] pass_grid(3) [OF assms(1-4)]
      pass_props(3) [OF cr assms(4)]
    by (cases "r = y \<and> c = x") simp_all
  moreover have "set (s ! r ! c) \<subseteq> set (D ! r ! c) \<and> length (s ! r ! c) \<le> length (D ! r ! c)"
    using assms(5) rc by (simp add: shrunk_def)
  ultimately show "set (s' ! r ! c) \<subseteq> set (D ! r ! c) \<and> length (s' ! r ! c) \<le> length (D ! r ! c)"
    by (meson order_trans)
qed

lemma ac3_shrunk:
  assumes "is_domain_grid D"
  shows "\<exists>res. ac3 D = Inr res \<and> (is_domain_grid (reduced res) \<and> shrunk (reduced res) D)"
proof (rule ac3_rule [where Q = "\<lambda>s q. shrunk s D", OF assms])
  show "shrunk D D" by (simp add: shrunk_def)
next
  fix s assume "is_domain_grid s" "shrunk s D"
  then show "is_domain_grid (reduced \<lparr>reduced = s, solvable = True, iterations = 1\<rparr>) \<and>
      shrunk (reduced \<lparr>reduced = s, solvable = True, iterations = 1\<rparr>) D"
    by simp
next
  fix s x y q s' ch
  assume a: "is_domain_grid s" "x < 9" "y < 9" "shrunk s D" "pass s x y = (s', [], ch)"
  show "is_domain_grid (reduced \<lparr>reduced = s', solvable = False, iterations = 1\<rparr>) \<and>
      shrunk (reduced \<lparr>reduced = s', solvable = False, iterations = 1\<rparr>) D"
    using pass_grid(1) [OF a(1-3) a(5)] pass_shrunk [OF a(1-3) a(5) a(4)] by simp
next
  fix s x y and q :: "(nat \<times> nat) list" and s' d
  assume a: "is_domain_grid s" "x < 9" "y < 9" "shrunk s D" "pass s x y = (s', d, True)"
  show "shrunk s' D" by (rule pass_shrunk [OF a(1-3) a(5) a(4)])
next
  fix s x y and q :: "(nat \<times> nat) list" and s' d
  assume a: "is_domain_grid s" "x < 9" "y < 9" "shrunk s D" "pass s x y = (s', d, False)"
  show "shrunk s' D" by (rule pass_shrunk [OF a(1-3) a(5) a(4)])
qed

definition pending :: "DomainSudoku \<Rightarrow> (nat \<times> nat) list \<Rightarrow> bool" where
  "pending s q \<longleftrightarrow> (\<forall>y<9. \<forall>x<9. s ! y ! x = [] \<longrightarrow> (x, y) \<in> set q)"

lemma pass_pending:
  assumes "is_domain_grid s" "x < 9" "y < 9" "pass s x y = (s', d, ch)" "d \<noteq> []"
    and "pending s ((x, y) # q)"
  shows "pending s' q"
  unfolding pending_def
proof (intro allI impI)
  fix y' x' :: nat assume b: "y' < 9" "x' < 9" "s' ! y' ! x' = []"
  have "s' ! y' ! x' = (if y' = y \<and> x' = x then d else s ! y' ! x')"
    by (rule pass_grid(2) [OF assms(1-4) b(1,2)])
  with b(3) assms(5) have "\<not> (y' = y \<and> x' = x)" "s ! y' ! x' = []" by (auto split: if_splits)
  with assms(6) b(1,2) show "(x', y') \<in> set q" by (auto simp: pending_def)
qed

lemma pending_mono: "pending s q \<Longrightarrow> set q \<subseteq> set q' \<Longrightarrow> pending s q'"
  by (auto simp: pending_def)

lemma ac3_solvable_nonempty:
  assumes "is_domain_grid D"
  shows "\<exists>res. ac3 D = Inr res \<and> (solvable res \<longrightarrow> (\<forall>r<9. \<forall>c<9. reduced res ! r ! c \<noteq> []))"
proof (rule ac3_rule [where Q = pending, OF assms])
  show "pending D (map (\<lambda>(y, x). (x, y)) coordinates)"
    by (auto simp: pending_def set_coordinates image_iff intro!: bexI [of _ "(y, x)" for x y])
next
  fix s assume "is_domain_grid s" "pending s []"
  then show "solvable \<lparr>reduced = s, solvable = True, iterations = 1\<rparr> \<longrightarrow>
      (\<forall>r<9. \<forall>c<9. reduced \<lparr>reduced = s, solvable = True, iterations = 1\<rparr> ! r ! c \<noteq> [])"
    by (auto simp: pending_def)
next
  fix s x y q s' ch
  show "solvable \<lparr>reduced = s', solvable = False, iterations = 1\<rparr> \<longrightarrow>
      (\<forall>r<9. \<forall>c<9. reduced \<lparr>reduced = s', solvable = False, iterations = 1\<rparr> ! r ! c \<noteq> [])"
    by simp
next
  fix s x y and q :: "(nat \<times> nat) list" and s' d
  assume a: "is_domain_grid s" "x < 9" "y < 9" "pending s ((x, y) # q)"
    "pass s x y = (s', d, True)" "d \<noteq> []"
  have "pending s' q" by (rule pass_pending [OF a(1-3) a(5) a(6) a(4)])
  then show "pending s' (q @ (x, y) # constraintCoordinates x y)"
    by (rule pending_mono) auto
next
  fix s x y and q :: "(nat \<times> nat) list" and s' d
  assume a: "is_domain_grid s" "x < 9" "y < 9" "pending s ((x, y) # q)"
    "pass s x y = (s', d, False)" "d \<noteq> []"
  show "pending s' q" by (rule pass_pending [OF a(1-3) a(5) a(6) a(4)])
qed


lemma set_block_group:
  "set (block_group b) = {(r, c). r < 9 \<and> c < 9 \<and> (r div 3) * 3 + c div 3 = b}"
  by (auto simp: block_group_def set_coordinates)

lemma valid_neighbours_differ:
  assumes "is_grid S" "isSudokuValid S" "x < 9" "y < 9"
    and "(yy, xx) \<in> set (constraintCoordinates x y)" "S ! y ! x \<noteq> 0"
  shows "S ! y ! x \<noteq> S ! yy ! xx"
proof -
  from assms(5) have n: "yy < 9" "xx < 9" "(yy, xx) \<noteq> (y, x)"
    and g: "yy = y \<or> xx = x \<or> (yy div 3 = y div 3 \<and> xx div 3 = x div 3)"
    by (simp_all add: set_constraintCoordinates [OF assms(3,4)])
  have gv: "groups_valid S" using assms(1,2) by (simp add: isSudokuValid_iff_groups)
  have "\<exists>G \<in> set constraint_groups. (y, x) \<in> set G \<and> (yy, xx) \<in> set G"
  proof -
    consider "yy = y" | "xx = x" | "yy div 3 = y div 3 \<and> xx div 3 = x div 3" using g by blast
    then show ?thesis
    proof cases
      case 1
      have "row_group y \<in> set constraint_groups"
        using assms(4) by (simp add: constraint_groups_def)
      moreover have "(y, x) \<in> set (row_group y)" "(yy, xx) \<in> set (row_group y)"
        using 1 assms(3) n by (auto simp: row_group_def)
      ultimately show ?thesis by blast
    next
      case 2
      have "column_group x \<in> set constraint_groups"
        using assms(3) by (simp add: constraint_groups_def)
      moreover have "(y, x) \<in> set (column_group x)" "(yy, xx) \<in> set (column_group x)"
        using 2 assms(4) n by (auto simp: column_group_def)
      ultimately show ?thesis by blast
    next
      case 3
      let ?b = "(y div 3) * 3 + x div 3"
      have "?b < 9" using div3_less [OF assms(3)] div3_less [OF assms(4)] by simp
      then have "block_group ?b \<in> set constraint_groups"
        by (simp add: constraint_groups_def)
      moreover have "(y, x) \<in> set (block_group ?b)" "(yy, xx) \<in> set (block_group ?b)"
        using 3 assms(3,4) n by (simp_all add: set_block_group)
      ultimately show ?thesis by blast
    qed
  qed
  then obtain G where "G \<in> set constraint_groups" "(y, x) \<in> set G" "(yy, xx) \<in> set G" by blast
  with gv have "cell S (y, x) \<noteq> cell S (yy, xx)"
    using n(3) assms(6) unfolding groups_valid_def nonzero_distinct_def
    by (metis cell_def old.prod.case)
  then show ?thesis by (simp add: cell_def)
qed

text \<open>
  A grid is consistent with a domain grid when each of its cells holds a candidate of
  the same cell of the domain grid.
\<close>

definition consistent :: "SimpleSudoku \<Rightarrow> DomainSudoku \<Rightarrow> bool" where
  "consistent S D \<longleftrightarrow> list_all (\<lambda>(r, c). S ! r ! c \<in> set (D ! r ! c)) coordinates"

lemma consistent_def2: "consistent S D \<longleftrightarrow> (\<forall>r<9. \<forall>c<9. S ! r ! c \<in> set (D ! r ! c))"
  by (auto simp: consistent_def list_all_iff set_coordinates)

lemma consistentD: "consistent S D \<Longrightarrow> r < 9 \<Longrightarrow> c < 9 \<Longrightarrow> S ! r ! c \<in> set (D ! r ! c)"
  by (simp add: consistent_def2)

lemma pass_consistent:
  assumes "is_grid S" "isSudokuFilled S" "isSudokuValid S"
    and "is_domain_grid s" "x < 9" "y < 9" "pass s x y = (s', d, ch)" "consistent S s"
  shows "consistent S s'"
  unfolding consistent_def2
proof (intro allI impI)
  fix r c :: nat assume rc: "r < 9" "c < 9"
  have eq: "s' ! r ! c = (if r = y \<and> c = x then d else s ! r ! c)"
    by (rule pass_grid(2) [OF assms(4-7) rc])
  show "S ! r ! c \<in> set (s' ! r ! c)"
  proof (cases "r = y \<and> c = x")
    case False
    then have "s' ! r ! c = s ! r ! c" using eq by auto
    then show ?thesis using consistentD [OF assms(8) rc] by simp
  next
    case True
    have in_s: "S ! y ! x \<in> set (s ! y ! x)" by (rule consistentD [OF assms(8,6,5)])
    have nz: "S ! y ! x \<noteq> 0" using assms(2,5,6) by (simp add: isSudokuFilled_iff)
    have "S ! y ! x \<in> set d"
    proof (rule ccontr)
      assume "S ! y ! x \<notin> set d"
      with in_s pass_grid(4) [OF assms(4-7)] obtain p where
        p: "p \<in> set (constraintCoordinates x y)" "s ! fst p ! snd p = [S ! y ! x]"
        by fastforce
      then have "fst p < 9" "snd p < 9"
        by (auto simp: set_constraintCoordinates [OF assms(5,6)])
      from consistentD [OF assms(8) this] p(2) have "S ! fst p ! snd p = S ! y ! x"
        by simp
      moreover have "S ! y ! x \<noteq> S ! fst p ! snd p"
        by (rule valid_neighbours_differ [OF assms(1,3,5,6) _ nz]) (simp add: p(1))
      ultimately show False by simp
    qed
    then show ?thesis using eq True by simp
  qed
qed

lemma ac3_keeps_solution:
  assumes "is_grid S" "isSudokuFilled S" "isSudokuValid S" "is_domain_grid D" "consistent S D"
  shows "\<exists>res. ac3 D = Inr res \<and> (solvable res \<and> consistent S (reduced res))"
proof (rule ac3_rule [where Q = "\<lambda>s q. consistent S s", OF assms(4,5)])
  fix s assume "is_domain_grid s" "consistent S s"
  then show "solvable \<lparr>reduced = s, solvable = True, iterations = 1\<rparr> \<and>
      consistent S (reduced \<lparr>reduced = s, solvable = True, iterations = 1\<rparr>)"
    by simp
next
  fix s x y q s' ch
  assume a: "is_domain_grid s" "x < 9" "y < 9" "consistent S s" "pass s x y = (s', [], ch)"
  have "consistent S s'" by (rule pass_consistent [OF assms(1-3) a(1-3) a(5) a(4)])
  moreover have "s' ! y ! x = []" using pass_grid(2) [OF a(1-3) a(5) a(3) a(2)] by simp
  ultimately have False using consistentD [of S s' y x] a(2,3) by simp
  then show "solvable \<lparr>reduced = s', solvable = False, iterations = 1\<rparr> \<and>
      consistent S (reduced \<lparr>reduced = s', solvable = False, iterations = 1\<rparr>)" ..
next
  fix s x y and q :: "(nat \<times> nat) list" and s' d
  assume a: "is_domain_grid s" "x < 9" "y < 9" "consistent S s" "pass s x y = (s', d, True)"
  show "consistent S s'" by (rule pass_consistent [OF assms(1-3) a(1-3) a(5) a(4)])
next
  fix s x y and q :: "(nat \<times> nat) list" and s' d
  assume a: "is_domain_grid s" "x < 9" "y < 9" "consistent S s" "pass s x y = (s', d, False)"
  show "consistent S s'" by (rule pass_consistent [OF assms(1-3) a(1-3) a(5) a(4)])
qed


lemma is_domain_grid_toDomainSudoku: "is_grid g \<Longrightarrow> is_domain_grid (toDomainSudoku g)"
  by (simp add: is_grid_def is_domain_grid_def toDomainSudoku_def list_all_iff)

text \<open>
  C8. \<open>ac3\<close> terminates on every 9 by 9 domain grid: the loop is a total function
  (its termination is proved with the total size of the domains, which a pass that
  re-enqueues strictly shrinks, and the length of the queue), and on such a grid it
  returns a result, through the empty-domain return or the empty-queue exit, and
  never ends in an error.
\<close>

theorem ac3_terminates:
  assumes "is_domain_grid D"
  shows "\<exists>res. ac3 D = Inr res"
  using assms by (rule ac3_returns)

theorem ac3_terminates_witness:
  "is_domain_grid (toDomainSudoku puzzle_grid) \<and> (\<exists>res. ac3 (toDomainSudoku puzzle_grid) = Inr res)"
  using ac3_terminates [OF is_domain_grid_toDomainSudoku [OF is_grid_puzzle_grid]]
    is_domain_grid_toDomainSudoku [OF is_grid_puzzle_grid]
  by simp

text \<open>
  C10. Whatever \<open>ac3\<close> reports, in the grid it returns every cell's candidates are
  among the candidates of the same cell of its argument.
\<close>

theorem ac3_only_removes:
  assumes "is_domain_grid D"
  shows "\<exists>res. ac3 D = Inr res \<and>
           (\<forall>r<9. \<forall>c<9. set (reduced res ! r ! c) \<subseteq> set (D ! r ! c))"
  using ac3_shrunk [OF assms] by (auto simp: shrunk_def)

theorem ac3_only_removes_witness:
  "is_domain_grid (toDomainSudoku puzzle_grid) \<and>
   (\<exists>res. ac3 (toDomainSudoku puzzle_grid) = Inr res \<and>
      (\<forall>r<9. \<forall>c<9. set (reduced res ! r ! c) \<subseteq> set (toDomainSudoku puzzle_grid ! r ! c)))"
  using ac3_only_removes [OF is_domain_grid_toDomainSudoku [OF is_grid_puzzle_grid]]
    is_domain_grid_toDomainSudoku [OF is_grid_puzzle_grid]
  by simp

text \<open>
  C1. Reducer safety: for a 9 by 9 domain grid \<open>D\<close> and a filled valid grid \<open>S\<close>
  consistent with \<open>D\<close>, \<open>ac3 D\<close> returns a grid that still holds \<open>S ! r ! c\<close> in
  every cell \<open>(r, c)\<close> (and it reports the grid solvable).
\<close>

theorem ac3_keeps_solutions:
  assumes "is_domain_grid D" and "is_grid S" and "isSudokuFilled S" and "isSudokuValid S"
    and "consistent S D"
  shows "\<exists>res. ac3 D = Inr res \<and> solvable res \<and>
           (\<forall>r<9. \<forall>c<9. S ! r ! c \<in> set (reduced res ! r ! c))"
  using ac3_keeps_solution [OF assms(2-4) assms(1) assms(5)] by (simp add: consistent_def2)

lemma consistent_solved_puzzle: "consistent solved_grid (toDomainSudoku puzzle_grid)"
  by code_simp

theorem ac3_keeps_solutions_witness:
  "is_domain_grid (toDomainSudoku puzzle_grid) \<and> is_grid solved_grid \<and>
   isSudokuFilled solved_grid \<and> isSudokuValid solved_grid \<and>
   consistent solved_grid (toDomainSudoku puzzle_grid) \<and>
   (\<exists>res. ac3 (toDomainSudoku puzzle_grid) = Inr res \<and> solvable res \<and>
      (\<forall>r<9. \<forall>c<9. solved_grid ! r ! c \<in> set (reduced res ! r ! c)))"
  using ac3_keeps_solutions [OF is_domain_grid_toDomainSudoku [OF is_grid_puzzle_grid]
      is_grid_solved_grid isSudokuFilled_solved_grid isSudokuValid_solved_grid
      consistent_solved_puzzle]
    is_domain_grid_toDomainSudoku [OF is_grid_puzzle_grid]
    is_grid_solved_grid isSudokuFilled_solved_grid isSudokuValid_solved_grid
    consistent_solved_puzzle
  by simp

text \<open>A grid with the digit 1 twice in its first row.\<close>

definition clash_grid :: SimpleSudoku where
  "clash_grid = set_cell (set_cell empty_grid 0 0 1) 0 1 1"

lemma is_grid_clash_grid: "is_grid clash_grid"
  by code_simp

lemma reads_in_range_clash: "reads_in_range (toDomainSudoku clash_grid) 0 0"
  by (rule reads_in_range_grid [OF is_domain_grid_toDomainSudoku [OF is_grid_clash_grid]]) simp_all

lemma pass_clash: "fst (snd (pass (toDomainSudoku clash_grid) 0 0)) = []"
  by code_simp

text \<open>
  C7. When the pass for the coordinate at the head of the queue leaves its domain
  empty, the loop returns at once, with \<open>solvable = False\<close> and whatever the rest of
  the queue; and when \<open>ac3\<close> returns \<open>solvable = True\<close> on a 9 by 9 domain grid,
  every cell of the returned grid has a candidate.
\<close>

theorem ac3_empty_domain_unsolvable:
  "(reads_in_range s x y \<and> fst (snd (pass s x y)) = [] \<longrightarrow>
      ac3_loop s ((r, x, y) # q) n =
        Inr \<lparr>reduced = fst (pass s x y), solvable = False, iterations = 1\<rparr>) \<and>
   (is_domain_grid D \<longrightarrow>
      (\<exists>res. ac3 D = Inr res \<and>
         (solvable res \<longrightarrow> (\<forall>r<9. \<forall>c<9. reduced res ! r ! c \<noteq> []))))"
proof (intro conjI impI)
  assume a: "reads_in_range s x y \<and> fst (snd (pass s x y)) = []"
  obtain s' d ch where p: "pass s x y = (s', d, ch)" by (cases "pass s x y")
  with a have "d = []" by simp
  then show "ac3_loop s ((r, x, y) # q) n =
      Inr \<lparr>reduced = fst (pass s x y), solvable = False, iterations = 1\<rparr>"
    using a p by (simp add: ac3_loop_Cons [OF _ p])
next
  assume "is_domain_grid D"
  then show "\<exists>res. ac3 D = Inr res \<and>
      (solvable res \<longrightarrow> (\<forall>r<9. \<forall>c<9. reduced res ! r ! c \<noteq> []))"
    by (rule ac3_solvable_nonempty)
qed

theorem ac3_empty_domain_unsolvable_witness:
  "reads_in_range (toDomainSudoku clash_grid) 0 0 \<and>
   fst (snd (pass (toDomainSudoku clash_grid) 0 0)) = [] \<and>
   ac3_loop (toDomainSudoku clash_grid) [(0, 0, 0), (1, 1, 0)] 81 =
     Inr \<lparr>reduced = fst (pass (toDomainSudoku clash_grid) 0 0), solvable = False,
          iterations = 1\<rparr> \<and>
   is_domain_grid (toDomainSudoku puzzle_grid) \<and>
   (\<exists>res. ac3 (toDomainSudoku puzzle_grid) = Inr res \<and>
      (solvable res \<longrightarrow> (\<forall>r<9. \<forall>c<9. reduced res ! r ! c \<noteq> [])))"
  using ac3_empty_domain_unsolvable [of "toDomainSudoku clash_grid" 0 0 0 "[(1, 1, 0)]" 81
      "toDomainSudoku puzzle_grid"]
    reads_in_range_clash pass_clash is_domain_grid_toDomainSudoku [OF is_grid_puzzle_grid]
  by simp


section \<open>The children of the four strategies\<close>

text \<open>
  A domain grid is stable when every cell has a candidate and no cell holds the single
  candidate of one of its constraint cells: no pass changes it.
\<close>

definition stable :: "DomainSudoku \<Rightarrow> bool" where
  "stable s \<longleftrightarrow>
     list_all (\<lambda>(y, x). s ! y ! x \<noteq> [] \<and>
       list_all (\<lambda>(yy, xx). \<not> (length (s ! yy ! xx) = 1 \<and> s ! yy ! xx ! 0 \<in> set (s ! y ! x)))
         (constraintCoordinates x y)) coordinates"

lemma pass_stable:
  assumes "is_domain_grid s" "stable s" "x < 9" "y < 9"
  shows "pass s x y = (s, s ! y ! x, False)" and "s ! y ! x \<noteq> []"
proof -
  have r: "y < length s" "x < length (s ! y)"
    using is_domain_grid_length [OF assms(1)] is_domain_grid_row [OF assms(1)] assms(3,4) by simp_all
  have "(y, x) \<in> set coordinates" using assms(3,4) by (simp add: set_coordinates)
  with assms(2) have st: "s ! y ! x \<noteq> []"
    "\<forall>(yy, xx) \<in> set (constraintCoordinates x y).
       \<not> (length (s ! yy ! xx) = 1 \<and> s ! yy ! xx ! 0 \<in> set (s ! y ! x))"
    unfolding stable_def list_all_iff by fastforce+
  show "s ! y ! x \<noteq> []" by (rule st(1))
  show "pass s x y = (s, s ! y ! x, False)"
    unfolding pass_def by (rule revise_foldl_stable [OF r refl st(2)])
qed

lemma ac3_loop_stable:
  assumes "is_domain_grid s" "stable s" "queue_ok q n"
  shows "ac3_loop s q n = Inr \<lparr>reduced = s, solvable = True, iterations = 1\<rparr>"
proof -
  have "\<exists>res. ac3_loop s q n = Inr res \<and> res = \<lparr>reduced = s, solvable = True, iterations = 1\<rparr>"
  proof (rule ac3_loop_rule [where Q = "\<lambda>s' q. s' = s", OF assms(1,3)])
    show "s = s" ..
  next
    fix s0 assume "s0 = s"
    then show "\<lparr>reduced = s0, solvable = True, iterations = 1\<rparr>
        = \<lparr>reduced = s, solvable = True, iterations = 1\<rparr>" by simp
  next
    fix s0 x y q s' ch
    assume a: "x < 9" "y < 9" "s0 = s" "pass s0 x y = (s', [], ch)"
    with pass_stable [OF assms(1,2) a(1,2)] have False by simp
    then show "\<lparr>reduced = s', solvable = False, iterations = 1\<rparr>
        = \<lparr>reduced = s, solvable = True, iterations = 1\<rparr>" ..
  next
    fix s0 x y and q :: "(nat \<times> nat) list" and s' d
    assume a: "x < 9" "y < 9" "s0 = s" "pass s0 x y = (s', d, True)"
    with pass_stable [OF assms(1,2) a(1,2)] have False by simp
    then show "s' = s" ..
  next
    fix s0 x y and q :: "(nat \<times> nat) list" and s' d
    assume a: "x < 9" "y < 9" "s0 = s" "pass s0 x y = (s', d, False)"
    with pass_stable [OF assms(1,2) a(1,2)] show "s' = s" by simp
  qed
  then show ?thesis by simp
qed

lemma toDomainSudoku_nth:
  assumes "is_grid g" "r < 9" "c < 9"
  shows "toDomainSudoku g ! r ! c = (if g ! r ! c = 0 then [1..<10] else [g ! r ! c])"
  using is_grid_length [OF assms(1)] is_grid_row [OF assms(1,2)] assms(2,3)
  by (simp add: toDomainSudoku_def)



lemma toSimpleSudoku_toDomainSudoku: "toSimpleSudoku (toDomainSudoku g) = g"
proof -
  have "(\<lambda>c. if length c = 1 then c ! 0 else 0) \<circ> (\<lambda>n. if n = 0 then [1..<10] else [n]) = (\<lambda>n::nat. n)"
    by (rule ext) simp
  then show ?thesis
    by (simp add: toSimpleSudoku_def toDomainSudoku_def map_idI)
qed

lemma stable_toDomainSudoku:
  assumes "is_grid g" "isSudokuFilled g" "isSudokuValid g"
  shows "stable (toDomainSudoku g)"
proof -
  have cellv: "toDomainSudoku g ! r ! c = [g ! r ! c]" if "r < 9" "c < 9" for r c
  proof -
    have "g ! r ! c \<noteq> 0" using assms(2) that unfolding isSudokuFilled_iff by blast
    then show ?thesis using toDomainSudoku_nth [OF assms(1) that] by simp
  qed
  have main: "toDomainSudoku g ! y ! x \<noteq> [] \<and>
      (\<forall>(yy, xx) \<in> set (constraintCoordinates x y).
         \<not> (length (toDomainSudoku g ! yy ! xx) = 1 \<and>
            toDomainSudoku g ! yy ! xx ! 0 \<in> set (toDomainSudoku g ! y ! x)))"
    if xy: "x < 9" "y < 9" for x y
  proof (intro conjI ballI)
    show "toDomainSudoku g ! y ! x \<noteq> []" using cellv [OF xy(2,1)] by simp
  next
    fix p assume p: "p \<in> set (constraintCoordinates x y)"
    obtain yy xx where pp: "p = (yy, xx)" by (cases p)
    have n: "yy < 9" "xx < 9" using p pp by (simp_all add: set_constraintCoordinates [OF xy])
    have nz: "g ! y ! x \<noteq> 0" using assms(2) xy unfolding isSudokuFilled_iff by blast
    have "g ! y ! x \<noteq> g ! yy ! xx"
      by (rule valid_neighbours_differ [OF assms(1,3) xy _ nz]) (use p pp in simp)
    then show "case p of (yy, xx) \<Rightarrow>
        \<not> (length (toDomainSudoku g ! yy ! xx) = 1 \<and>
           toDomainSudoku g ! yy ! xx ! 0 \<in> set (toDomainSudoku g ! y ! x))"
      using cellv [OF n] cellv [OF xy(2,1)] pp by auto
  qed
  show ?thesis
    unfolding stable_def list_all_iff
  proof
    fix p assume p: "p \<in> set coordinates"
    obtain y x where pp: "p = (y, x)" by (cases p)
    with p have "x < 9" "y < 9" by (simp_all add: set_coordinates)
    from main [OF this] show "case p of (y, x) \<Rightarrow> toDomainSudoku g ! y ! x \<noteq> [] \<and>
        (\<forall>(yy, xx) \<in> set (constraintCoordinates x y).
           \<not> (length (toDomainSudoku g ! yy ! xx) = 1 \<and>
              toDomainSudoku g ! yy ! xx ! 0 \<in> set (toDomainSudoku g ! y ! x)))"
      by (simp add: pp)
  qed
qed

lemma ac3_solved:
  assumes "is_grid g" "isSudokuFilled g" "isSudokuValid g"
  shows "ac3 (toDomainSudoku g) = Inr \<lparr>reduced = toDomainSudoku g, solvable = True, iterations = 1\<rparr>"
  unfolding ac3_unfold
  by (rule ac3_loop_stable [OF is_domain_grid_toDomainSudoku [OF assms(1)]
        stable_toDomainSudoku [OF assms] initial_queue_ok])

lemma AC3Strategy_solved:
  assumes "is_grid g" "isSudokuFilled g" "isSudokuValid g"
  shows "AC3Strategy g = Inr [g]"
  using assms(2,3) by (simp add: AC3Strategy_def ac3_solved [OF assms] toSimpleSudoku_toDomainSudoku)



definition one_blank_grid :: SimpleSudoku where
  "one_blank_grid = set_cell solved_grid 0 1 0"



lemma is_grid_one_blank_grid: "is_grid one_blank_grid"
  unfolding one_blank_grid_def by (intro is_grid_set_cell is_grid_solved_grid)



lemma initial_queue_head:
  "allocate 0 (map (\<lambda>(y, x). (x, y)) coordinates) =
     (0, 0, 0) # (1, 1, 0) # drop 2 (allocate 0 (map (\<lambda>(y, x). (x, y)) coordinates))"
  by code_simp



















section \<open>The re-enqueue step\<close>

text \<open>
  The empty grid with the digit 1 in its first cell, and the queue left after the first
  two entries \<open>[0, 0]\<close> and \<open>[1, 0]\<close> of the initial queue.
\<close>

definition one_given_grid :: SimpleSudoku where
  "one_given_grid = set_cell empty_grid 0 0 1"

definition initial_tail :: "coordinate list" where
  "initial_tail = drop 2 (allocate 0 (map (\<lambda>(y, x). (x, y)) coordinates))"


lemma is_grid_one_given_grid: "is_grid one_given_grid"
  by code_simp

lemma pass_one_given_first:
  "pass (toDomainSudoku one_given_grid) 0 0 = (toDomainSudoku one_given_grid, [1], False)"
  by code_simp

lemma pass_one_given_second:
  "snd (pass (toDomainSudoku one_given_grid) 1 0) = ([2, 3, 4, 5, 6, 7, 8, 9], True)"
  by code_simp

lemma length_constraintCoordinates_1_0: "length (constraintCoordinates 1 0) = 24"
  by code_simp

lemma requeue_transposed:
  "(5, 0) \<in> set (map denoted_cell (allocate 105 (constraintCoordinates 1 0))) \<and>
   (5, 0) \<notin> set (constraintCoordinates 1 0)"
  by code_simp


lemma length_constraintCoordinates_0_0: "length (constraintCoordinates 0 0) = 24"
  by code_simp

lemma initial_queue_tail:
  "allocate 0 (map (\<lambda>(y, x). (x, y)) coordinates) = (0, 0, 0) # (1, 1, 0) # initial_tail"
  unfolding initial_tail_def by (rule initial_queue_head)

lemma queue_ok_second: "queue_ok ((1, 1, 0) # initial_tail) 105"
proof -
  have "queue_ok ((0, 0, 0) # (1, 1, 0) # initial_tail) 81"
    using initial_queue_ok by (simp only: initial_queue_tail)
  from queue_ok_tail [OF this, of 24] show ?thesis by simp
qed

lemma requeue_second:
  "requeue initial_tail 105 1 0 =
     (initial_tail @ [(129, 1, 0)]) @ allocate 105 (constraintCoordinates 1 0)"
  using requeue_ok(1) [OF queue_ok_second] by (simp add: length_constraintCoordinates_1_0 [unfolded One_nat_def])

lemma ac3_one_given:
  "ac3 (toDomainSudoku one_given_grid) =
     ac3_loop (fst (pass (toDomainSudoku one_given_grid) 1 0)) (requeue initial_tail 105 1 0) 130"
proof -
  let ?D = "toDomainSudoku one_given_grid"
  have dg: "is_domain_grid ?D" by (rule is_domain_grid_toDomainSudoku [OF is_grid_one_given_grid])
  have r0: "reads_in_range ?D 0 0" and r1: "reads_in_range ?D 1 0"
    by (rule reads_in_range_grid [OF dg]; simp)+
  obtain s' where p1: "pass ?D 1 0 = (s', [2, 3, 4, 5, 6, 7, 8, 9], True)"
    using pass_one_given_second by (cases "pass ?D 1 0") simp
  have "ac3 ?D = ac3_loop ?D ((0, 0, 0) # (1, 1, 0) # initial_tail) 81"
    by (simp only: ac3_unfold initial_queue_tail)
  also have "\<dots> = ac3_loop ?D ((1, 1, 0) # initial_tail) 105"
    unfolding ac3_loop_Cons [OF r0 pass_one_given_first]
    by (simp add: length_constraintCoordinates_0_0)
  also have "\<dots> = ac3_loop s' (requeue initial_tail 105 1 0) 130"
    unfolding ac3_loop_Cons [OF r1 p1]
    by (simp add: length_constraintCoordinates_1_0 [unfolded One_nat_def])
  finally show ?thesis by (simp add: p1 [unfolded One_nat_def])
qed

lemma duplicate_cell:
  "(0, 2) \<in> set (map denoted_cell initial_tail) \<and>
   (0, 2) \<in> set (map denoted_cell (allocate 105 (constraintCoordinates 1 0)))"
  by code_simp

lemma requeue_duplicates: "\<not> distinct (map denoted_cell (requeue initial_tail 105 1 0))"
  using duplicate_cell unfolding requeue_second by auto


text \<open>
  C3. On the grid \<open>one_given_grid\<close> the second pass, for the entry \<open>[x, y] = [1, 0]\<close>,
  shrinks the domain of its cell, and \<open>ac3\<close> goes on with the queue that
  \<open>requeue\<close> gives. That queue holds a cell twice (\<open>uniq\<close> compares the coordinate
  arrays by identity and drops nothing, see \<open>requeue_ok\<close>); \<open>constraintCoordinates\<close>
  has 24 entries, not 20; and the entry \<open>[0, 5]\<close>, pushed for row 0 and column 5, is
  read back as \<open>[x, y]\<close>, the cell of row 5 and column 0, which is no constraint cell
  of the cell processed.
\<close>

theorem requeue_not_deduplicated:
  "snd (snd (pass (toDomainSudoku one_given_grid) 1 0)) \<and>
   ac3 (toDomainSudoku one_given_grid) =
     ac3_loop (fst (pass (toDomainSudoku one_given_grid) 1 0)) (requeue initial_tail 105 1 0) 130 \<and>
   \<not> distinct (map denoted_cell (requeue initial_tail 105 1 0)) \<and>
   length (constraintCoordinates 1 0) = 24 \<and>
   (5, 0) \<in> set (map denoted_cell (allocate 105 (constraintCoordinates 1 0))) \<and>
   (5, 0) \<notin> set (constraintCoordinates 1 0)"
  using pass_one_given_second ac3_one_given requeue_duplicates length_constraintCoordinates_1_0
    requeue_transposed
  by simp


end
